theory Spec2Isabelle
  imports Complex_Main "HOL-Library.Word"
begin

section \<open>Strings and files\<close>

text \<open>
  An ECMAScript string is a sequence of 16-bit code units. String literals of the source
  are ASCII; \<open>lit\<close> turns an ASCII literal into its code units.
\<close>

type_synonym jsstring = "16 word list"

definition lit :: "string \<Rightarrow> jsstring" where
  "lit s = map (\<lambda>c. of_char c) s"

text \<open>\<^verbatim>\<open>String.prototype.endsWith(searchString)\<close>.\<close>

definition endsWith :: "jsstring \<Rightarrow> jsstring \<Rightarrow> bool" where
  "endsWith s searchString =
     (length searchString \<le> length s \<and>
      drop (length s - length searchString) s = searchString)"

text \<open>
  The browser's \<^verbatim>\<open>File\<close>: its name, its declared media type (possibly empty) and its
  byte content.
\<close>

record File =
  name :: jsstring
  type :: jsstring
  bytes :: "8 word list"

section \<open>File intake: \<^verbatim>\<open>validateAndProcess\<close> (index.tsx, lines 79-90)\<close>

text \<open>
  \<^verbatim>\<open>validateAndProcess\<close> either hands the file to \<^verbatim>\<open>onFileSelect\<close> or raises a browser
  alert. The two effects are the two values of \<open>intake\<close>.
\<close>

datatype intake = OnFileSelect File | Alert jsstring

definition validTypes :: "jsstring list" where
  "validTypes = [lit ''text/markdown'', lit ''text/plain'', lit ''application/pdf'']"

definition validateAndProcess :: "File \<Rightarrow> intake" where
  "validateAndProcess file =
     (let isMd = (endsWith (name file) (lit ''.md'') \<or> endsWith (name file) (lit ''.markdown''));
          isPdf = (type file = lit ''application/pdf'' \<or> endsWith (name file) (lit ''.pdf''))
      in if isMd \<or> isPdf \<or> List.member validTypes (type file)
         then OnFileSelect file
         else Alert (lit ''Please upload a PDF or Markdown file.''))"

section \<open>The extraction request (index.tsx, lines 236-330)\<close>

text \<open>
  A thrown value is seen by the \<^verbatim>\<open>catch\<close> block only through \<^verbatim>\<open>err.message\<close>, which may be
  undefined. An awaited promise either never settles, is rejected or is fulfilled.
\<close>

datatype thrown = Thrown (message: "jsstring option")

datatype 'a settled = Pending | Rejected thrown | Fulfilled 'a

text \<open>
  The value \<^verbatim>\<open>JSON.parse\<close> returns. Numbers are kept as exact rationals; the workflow
  never computes with them.
\<close>

datatype json =
    JNull
  | JBool bool
  | JNumber rat
  | JString jsstring
  | JArray "json list"
  | JObject "(jsstring \<times> json) list"

text \<open>ECMAScript's \<^verbatim>\<open>ToBoolean\<close>, as used by \<^verbatim>\<open>!data\<close>.\<close>

fun truthy :: "json \<Rightarrow> bool" where
  "truthy JNull = False"
| "truthy (JBool b) = b"
| "truthy (JNumber q) = (q \<noteq> 0)"
| "truthy (JString s) = (s \<noteq> [])"
| "truthy (JArray xs) = True"
| "truthy (JObject kvs) = True"

text \<open>The response schema sent with the request (lines 254-309).\<close>

datatype schema =
    Type_STRING "jsstring option"
  | Type_INTEGER "jsstring option"
  | Type_ARRAY schema
  | Type_OBJECT "(jsstring \<times> schema) list" "jsstring list"

definition analysisSchema :: schema where
  "analysisSchema =
     Type_OBJECT
       [(lit ''metadata'',
           Type_OBJECT
             [(lit ''title'', Type_STRING None),
              (lit ''author'', Type_STRING None),
              (lit ''genre'', Type_STRING None),
              (lit ''readingTime'',
                 Type_STRING (Some (lit ''Estimated reading time for the document'')))]
             [lit ''title'', lit ''author'', lit ''genre'', lit ''readingTime'']),
        (lit ''executiveSummary'', Type_STRING None),
        (lit ''keyConcepts'',
           Type_ARRAY
             (Type_OBJECT
                [(lit ''term'', Type_STRING None),
                 (lit ''definition'', Type_STRING None),
                 (lit ''importance'', Type_INTEGER (Some (lit ''Relevance score 1-100'')))]
                [lit ''term'', lit ''definition'', lit ''importance''])),
        (lit ''chapterBreakdown'',
           Type_ARRAY
             (Type_OBJECT
                [(lit ''title'', Type_STRING None),
                 (lit ''summary'', Type_STRING None),
                 (lit ''insight'', Type_STRING (Some (lit ''One sentence critical takeaway'')))]
                [lit ''title'', lit ''summary'', lit ''insight''])),
        (lit ''topicStats'',
           Type_ARRAY
             (Type_OBJECT
                [(lit ''topic'', Type_STRING None),
                 (lit ''relevance'', Type_INTEGER (Some (lit ''1-100'')))]
                [lit ''topic'', lit ''relevance''])),
        (lit ''fullMarkdownReport'',
           Type_STRING
             (Some (lit ''A complete, well-formatted Markdown study note of the document.'')))]
       [lit ''metadata'', lit ''executiveSummary'', lit ''keyConcepts'',
        lit ''chapterBreakdown'', lit ''topicStats'', lit ''fullMarkdownReport'']"

fun required :: "schema \<Rightarrow> jsstring list" where
  "required (Type_OBJECT properties req) = req"
| "required s = []"

text \<open>
  A parsed value lacks a required field of the schema when it is not an object holding
  every name of the schema's \<^verbatim>\<open>required\<close> list.
\<close>

fun has_field :: "json \<Rightarrow> jsstring \<Rightarrow> bool" where
  "has_field (JObject kvs) k = (k \<in> set (map fst kvs))"
| "has_field j k = False"

definition missing_required :: "json \<Rightarrow> bool" where
  "missing_required j = list_ex (\<lambda>k. \<not> has_field j k) (required analysisSchema)"

text \<open>The two parts of the request (lines 311-321) and the request itself (lines 323-330).\<close>

datatype part = InlineData jsstring "jsstring option" | TextPart jsstring

record request =
  model :: jsstring
  contents_role :: jsstring
  contents_parts :: "part list"
  responseMimeType :: jsstring
  responseSchema :: schema

text \<open>Line 251: \<^verbatim>\<open>file.type || (file.name.endsWith('.md') ? 'text/plain' : 'application/pdf')\<close>.\<close>

definition mimeType :: "File \<Rightarrow> jsstring" where
  "mimeType file =
     (if type file \<noteq> [] then type file
      else if endsWith (name file) (lit ''.md'') then lit ''text/plain''
      else lit ''application/pdf'')"

text \<open>Line 314: the media type written into \<^verbatim>\<open>inlineData\<close>.\<close>

definition inlineData_mimeType :: "File \<Rightarrow> jsstring" where
  "inlineData_mimeType file =
     (if mimeType file = lit ''text/markdown'' then lit ''text/plain'' else mimeType file)"

definition parts :: "File \<Rightarrow> jsstring option \<Rightarrow> part list" where
  "parts file base64Data =
     [InlineData (inlineData_mimeType file) base64Data,
      TextPart (lit (''Analyze this document thoroughly. Create a comprehensive reading note. '' @
                     ''Be analytical, identifying deep structures and arguments. '' @
                     ''Ensure the fullMarkdownReport is formatted beautifully with headers, '' @
                     ''lists, and bold text.''))]"

definition generateContent_request :: "File \<Rightarrow> jsstring option \<Rightarrow> request" where
  "generateContent_request file base64Data =
     \<lparr>model = lit ''gemini-2.5-flash'',
      contents_role = lit ''user'',
      contents_parts = parts file base64Data,
      responseMimeType = lit ''application/json'',
      responseSchema = analysisSchema\<rparr>"

text \<open>
  What the browser and the service do is outside the source; it is a parameter of the
  model: whether the \<^verbatim>\<open>GoogleGenAI\<close> constructor throws, what \<^verbatim>\<open>FileReader.readAsDataURL\<close>
  delivers, what \<^verbatim>\<open>generateContent\<close> answers (\<^verbatim>\<open>result.text\<close>, possibly undefined), and
  \<^verbatim>\<open>JSON.parse\<close>.
\<close>

record platform =
  GoogleGenAI_new :: "thrown option"
  readAsDataURL :: "File \<Rightarrow> jsstring settled"
  generateContent :: "request \<Rightarrow> jsstring option settled"
  JSON_parse :: "jsstring \<Rightarrow> thrown + json"

text \<open>\<^verbatim>\<open>String.prototype.split\<close> with a separator of one code unit.\<close>

fun split :: "16 word \<Rightarrow> jsstring \<Rightarrow> jsstring list" where
  "split sep [] = [[]]"
| "split sep (c # cs) =
     (if c = sep then [] # split sep cs
      else (case split sep cs of [] \<Rightarrow> [[c]] | p # ps \<Rightarrow> (c # p) # ps))"

text \<open>Array indexing: undefined (\<open>None\<close>) out of range.\<close>

fun index :: "'a list \<Rightarrow> nat \<Rightarrow> 'a option" where
  "index [] i = None"
| "index (x # xs) 0 = Some x"
| "index (x # xs) (Suc i) = index xs i"

text \<open>Lines 236-248: the data URL's text after the first comma and before the second.\<close>

definition readFileBase64 :: "platform \<Rightarrow> File \<Rightarrow> jsstring option settled" where
  "readFileBase64 env f =
     (case readAsDataURL env f of
        Pending \<Rightarrow> Pending
      | Rejected e \<Rightarrow> Rejected e
      | Fulfilled result \<Rightarrow> Fulfilled (index (split 0x2C result) 1))"

section \<open>The workflow: \<^verbatim>\<open>handleFileSelect\<close> (index.tsx, lines 222-345)\<close>

datatype ViewState = upload | processing | dashboard

datatype DashboardTab = overview | concepts | visuals | full_report

text \<open>The four \<^verbatim>\<open>useState\<close> cells of \<^verbatim>\<open>App\<close>; \<^verbatim>\<open>data\<close> is \<open>JNull\<close> for \<^verbatim>\<open>null\<close>.\<close>

record App_state =
  view :: ViewState
  activeTab :: DashboardTab
  data :: json
  error :: "jsstring option"

definition App_initial :: App_state where
  "App_initial = \<lparr>view = upload, activeTab = overview, data = JNull, error = None\<rparr>"

text \<open>The body of the \<^verbatim>\<open>try\<close> block (lines 233-335), up to the parsed response.\<close>

definition handleFileSelect_try :: "platform \<Rightarrow> File \<Rightarrow> json settled" where
  "handleFileSelect_try env file =
     (case GoogleGenAI_new env of
        Some e \<Rightarrow> Rejected e
      | None \<Rightarrow>
     (case readFileBase64 env file of
        Pending \<Rightarrow> Pending
      | Rejected e \<Rightarrow> Rejected e
      | Fulfilled base64Data \<Rightarrow>
     (case generateContent env (generateContent_request file base64Data) of
        Pending \<Rightarrow> Pending
      | Rejected e \<Rightarrow> Rejected e
      | Fulfilled responseText \<Rightarrow>
     (case responseText of
        None \<Rightarrow> Rejected (Thrown (Some (lit ''No content generated'')))
      | Some t \<Rightarrow>
          if t = [] then Rejected (Thrown (Some (lit ''No content generated'')))
          else (case JSON_parse env t of
                  Inl e \<Rightarrow> Rejected e
                | Inr jsonResponse \<Rightarrow> Fulfilled jsonResponse)))))"

text \<open>Lines 229-230, before the first \<^verbatim>\<open>await\<close>.\<close>

definition handleFileSelect_begin :: "App_state \<Rightarrow> App_state" where
  "handleFileSelect_begin st = st\<lparr>view := processing, error := None\<rparr>"

text \<open>Line 342: \<^verbatim>\<open>err.message || "Failed to process file."\<close>.\<close>

definition catch_message :: "thrown \<Rightarrow> jsstring" where
  "catch_message err =
     (case message err of
        None \<Rightarrow> lit ''Failed to process file.''
      | Some m \<Rightarrow> if m = [] then lit ''Failed to process file.'' else m)"

text \<open>
  Lines 337-338 and 340-344: the state once the \<^verbatim>\<open>try\<close> block has settled; \<open>None\<close> while
  it has not.
\<close>

definition handleFileSelect_end :: "json settled \<Rightarrow> App_state \<Rightarrow> App_state option" where
  "handleFileSelect_end outcome st =
     (case outcome of
        Pending \<Rightarrow> None
      | Fulfilled jsonResponse \<Rightarrow> Some (st\<lparr>data := jsonResponse, view := dashboard\<rparr>)
      | Rejected err \<Rightarrow> Some (st\<lparr>error := Some (catch_message err), view := upload\<rparr>))"

text \<open>
  The successive states one call of \<^verbatim>\<open>handleFileSelect\<close> puts the application in. The call
  is made inside a React event handler, and the state updates made before the handler returns
  are applied together. When the \<^verbatim>\<open>GoogleGenAI\<close> constructor throws (line 233), the
  \<^verbatim>\<open>catch\<close> block runs before the first \<^verbatim>\<open>await\<close> (line 250): the updates of lines 229-230
  and 342-343 are applied as one, and the application is never in the processing view.
  Otherwise the handler returns at the first \<^verbatim>\<open>await\<close> with the processing view set, and the
  next state follows once the \<^verbatim>\<open>try\<close> block has settled.
\<close>

definition handleFileSelect :: "platform \<Rightarrow> File \<Rightarrow> App_state \<Rightarrow> App_state list" where
  "handleFileSelect env file st =
     (case GoogleGenAI_new env of
        Some err \<Rightarrow>
          [(handleFileSelect_begin st)\<lparr>error := Some (catch_message err), view := upload\<rparr>]
      | None \<Rightarrow>
          (let st1 = handleFileSelect_begin st
           in st1 # (case handleFileSelect_end (handleFileSelect_try env file) st1 of
                       None \<Rightarrow> []
                     | Some st2 \<Rightarrow> [st2])))"

section \<open>The events each view offers (index.tsx, lines 360-403 and 432-453)\<close>

text \<open>
  The upload view renders \<^verbatim>\<open>FileUpload\<close> (a dropped or chosen file goes to
  \<^verbatim>\<open>validateAndProcess\<close>, and an accepted file to \<^verbatim>\<open>handleFileSelect\<close>, which puts the
  application in the processing view with a call in flight, or, when the constructor
  throws, straight back in the upload view with the error); the processing view renders no
  control, and changes only when the pending call settles; the dashboard, rendered when \<^verbatim>\<open>data\<close> is truthy, offers the
  logo (\<^verbatim>\<open>setView('upload')\<close>), the print and export buttons and the tabs. A configuration
  is the state together with the file of the call in flight. Rendering the dashboard for a
  value that has not the shape of \<^verbatim>\<open>AnalysisData\<close> may throw, and then no control is shown;
  \<open>step\<close> offers the dashboard's events whenever \<^verbatim>\<open>data\<close> is truthy, so it has every
  transition of the application.
\<close>

datatype event =
    Select File
  | Settle
  | ClickLogo
  | ClickPrint
  | ClickExport
  | ClickTab DashboardTab

definition step ::
  "platform \<Rightarrow> App_state \<times> File option \<Rightarrow> event \<Rightarrow> (App_state \<times> File option) option" where
  "step env c ev =
     (let st = fst c in
      case view st of
        upload \<Rightarrow>
          (case ev of
             Select f \<Rightarrow>
               (case validateAndProcess f of
                  OnFileSelect f' \<Rightarrow>
                    (case GoogleGenAI_new env of
                       Some err \<Rightarrow>
                         Some ((handleFileSelect_begin st)
                                 \<lparr>error := Some (catch_message err), view := upload\<rparr>, snd c)
                     | None \<Rightarrow> Some (handleFileSelect_begin st, Some f'))
                | Alert m \<Rightarrow> Some c)
           | _ \<Rightarrow> None)
      | processing \<Rightarrow>
          (case ev of
             Settle \<Rightarrow>
               (case snd c of
                  None \<Rightarrow> None
                | Some f \<Rightarrow>
                    (case handleFileSelect_end (handleFileSelect_try env f) st of
                       None \<Rightarrow> None
                     | Some st' \<Rightarrow> Some (st', None)))
           | _ \<Rightarrow> None)
      | dashboard \<Rightarrow>
          if \<not> truthy (data st) then None
          else (case ev of
                  ClickLogo \<Rightarrow> Some (st\<lparr>view := upload\<rparr>, snd c)
                | ClickPrint \<Rightarrow> Some c
                | ClickExport \<Rightarrow> Some c
                | ClickTab tab \<Rightarrow> Some (st\<lparr>activeTab := tab\<rparr>, snd c)
                | _ \<Rightarrow> None))"

section \<open>The typed result and its views (index.tsx, lines 19-42, 163-218, 347-358, 455-521)\<close>

text \<open>
  The interface \<^verbatim>\<open>AnalysisData\<close>. The two numeric fields are integers by the schema; they
  are modelled as integers, and a bar's width as the exact quotient (the rounding of the
  browser's floating-point division is not modelled).
\<close>

record Metadata =
  title :: jsstring
  author :: jsstring
  genre :: jsstring
  readingTime :: jsstring

record KeyConcept =
  term' :: jsstring
  definition' :: jsstring
  importance :: int

record Chapter =
  title :: jsstring
  summary :: jsstring
  insight :: jsstring

record TopicStat =
  topic :: jsstring
  relevance :: int

record AnalysisData =
  metadata :: Metadata
  executiveSummary :: jsstring
  keyConcepts :: "KeyConcept list"
  chapterBreakdown :: "Chapter list"
  topicStats :: "TopicStat list"
  fullMarkdownReport :: jsstring

text \<open>The code units matched by \<^verbatim>\<open>\s\<close> (ECMAScript's WhiteSpace and LineTerminator).\<close>

definition WhiteSpace :: "16 word \<Rightarrow> bool" where
  "WhiteSpace c =
     (c = 0x0009 \<or> c = 0x000A \<or> c = 0x000B \<or> c = 0x000C \<or> c = 0x000D \<or> c = 0x0020 \<or>
      c = 0x00A0 \<or> c = 0x1680 \<or> (0x2000 \<le> c \<and> c \<le> 0x200A) \<or> c = 0x2028 \<or>
      c = 0x2029 \<or> c = 0x202F \<or> c = 0x205F \<or> c = 0x3000 \<or> c = 0xFEFF)"

text \<open>
  \<^verbatim>\<open>s.replace(/\s+/g, r)\<close> for a replacement \<open>r\<close> without \<^verbatim>\<open>$\<close>: from left to right, each
  match of \<^verbatim>\<open>\s+\<close> (greedy) is replaced by \<open>r\<close>.
\<close>

function replace_whitespace :: "jsstring \<Rightarrow> jsstring \<Rightarrow> jsstring" where
  "replace_whitespace r [] = []"
| "replace_whitespace r (c # cs) =
     (if WhiteSpace c then r @ replace_whitespace r (dropWhile WhiteSpace cs)
      else c # replace_whitespace r cs)"
  by pat_completeness auto
termination
  by (relation "measure (\<lambda>(r, s). length s)") (auto simp: length_dropWhile_le less_Suc_eq_le)

text \<open>
  Lines 347-358, \<^verbatim>\<open>handleDownload\<close>: nothing when \<^verbatim>\<open>data\<close> is null; otherwise a download of a
  blob built from the report, under the name made from the title. (\<open>data'\<close> is the state
  cell \<^verbatim>\<open>data\<close> at its declared type \<^verbatim>\<open>AnalysisData | null\<close>.)
\<close>

record download =
  blob_parts :: "jsstring list"
  blob_type :: jsstring
  download_name :: jsstring

definition handleDownload :: "AnalysisData option \<Rightarrow> download option" where
  "handleDownload data' =
     (case data' of
        None \<Rightarrow> None
      | Some d \<Rightarrow>
          Some \<lparr>blob_parts = [fullMarkdownReport d],
                blob_type = lit ''text/markdown'',
                download_name =
                  replace_whitespace (lit ''_'') (Metadata.title (metadata d)) @ lit ''_Notes.md''\<rparr>)"

text \<open>
  The export file name in the words of the specification: the title cut into its maximal
  runs of whitespace and of non-whitespace, each whitespace run replaced by one underscore.
\<close>

function runs :: "('a \<Rightarrow> bool) \<Rightarrow> 'a list \<Rightarrow> 'a list list" where
  "runs P [] = []"
| "runs P (x # xs) =
     (x # takeWhile (\<lambda>y. P y = P x) xs) # runs P (dropWhile (\<lambda>y. P y = P x) xs)"
  by pat_completeness auto
termination
  by (relation "measure (\<lambda>(P, xs). length xs)") (auto simp: length_dropWhile_le less_Suc_eq_le)

definition underscore_runs :: "jsstring \<Rightarrow> jsstring" where
  "underscore_runs s =
     concat (map (\<lambda>run. if list_all WhiteSpace run then lit ''_'' else run) (runs WhiteSpace s))"

text \<open>Lines 164-184, \<^verbatim>\<open>BarChart\<close>: \<open>max'\<close> is \<^verbatim>\<open>Math.max(...data.map(d => d.value), 1)\<close>.\<close>

record Datum =
  label :: jsstring
  value' :: int

record Bar =
  bar_label :: jsstring
  bar_text :: int
  bar_width :: rat

definition BarChart :: "Datum list \<Rightarrow> Bar list" where
  "BarChart data' =
     (let max' = fold max (map value' data') 1
      in map (\<lambda>item. \<lparr>bar_label = label item,
                       bar_text = value' item,
                       bar_width = (of_int (value' item) / of_int max') * 100\<rparr>) data')"

record Card =
  card_term :: jsstring
  card_amber :: bool
  card_impact :: int
  card_definition :: jsstring

definition ConceptCard :: "KeyConcept \<Rightarrow> nat \<Rightarrow> Card" where
  "ConceptCard concept idx =
     \<lparr>card_term = term' concept,
      card_amber = (importance concept > 80),
      card_impact = importance concept,
      card_definition = definition' concept\<rparr>"

record Row =
  row_section :: nat
  row_title :: jsstring
  row_summary :: jsstring
  row_insight :: jsstring

definition ChapterRow :: "Chapter \<Rightarrow> nat \<Rightarrow> Row" where
  "ChapterRow chapter idx =
     \<lparr>row_section = idx + 1,
      row_title = Chapter.title chapter,
      row_summary = summary chapter,
      row_insight = insight chapter\<rparr>"

record Impact =
  impact_term :: jsstring
  impact_width :: int
  impact_text :: int

datatype tab_view =
    Overview "Row list"
  | Concepts "Card list"
  | Visuals "Bar list" "Impact list"
  | FullReport jsstring

definition tab_views :: "DashboardTab \<Rightarrow> AnalysisData \<Rightarrow> tab_view" where
  "tab_views tab d =
     (case tab of
        overview \<Rightarrow> Overview (map (\<lambda>(idx, chapter). ChapterRow chapter idx)
                                 (enumerate 0 (chapterBreakdown d)))
      | concepts \<Rightarrow> Concepts (map (\<lambda>(idx, concept). ConceptCard concept idx)
                                 (enumerate 0 (keyConcepts d)))
      | visuals \<Rightarrow>
          Visuals (BarChart (map (\<lambda>t. \<lparr>label = topic t, value' = relevance t\<rparr>) (topicStats d)))
                  (map (\<lambda>c. \<lparr>impact_term = term' c,
                              impact_width = importance c,
                              impact_text = importance c\<rparr>)
                       (take 5 (keyConcepts d)))
      | full_report \<Rightarrow> FullReport (fullMarkdownReport d))"

text \<open>The two panels of the analytics tab and the cards of the concepts tab.\<close>

definition TopThemes :: "AnalysisData \<Rightarrow> Bar list" where
  "TopThemes d = (case tab_views visuals d of Visuals bars impacts \<Rightarrow> bars | _ \<Rightarrow> [])"

definition ConceptImpact :: "AnalysisData \<Rightarrow> Impact list" where
  "ConceptImpact d = (case tab_views visuals d of Visuals bars impacts \<Rightarrow> impacts | _ \<Rightarrow> [])"

definition CoreConcepts :: "AnalysisData \<Rightarrow> Card list" where
  "CoreConcepts d = (case tab_views concepts d of Concepts cards \<Rightarrow> cards | _ \<Rightarrow> [])"

section \<open>The transport encoding\<close>

text \<open>
  Modelled from the spec: the text encoding of the Binary Transport Encoder, "a standard
  base-64-equivalent text alphabet". The source leaves the encoding to the browser's
  \<^verbatim>\<open>FileReader.readAsDataURL\<close> and has no decoder. \<open>base64_code\<close> is the code unit of
  the \<open>n\<close>-th letter of the standard alphabet \<^verbatim>\<open>A-Z a-z 0-9 + /\<close>.
\<close>

definition base64_code :: "nat \<Rightarrow> nat" where
  "base64_code n =
     (if n < 26 then 65 + n
      else if n < 52 then 97 + (n - 26)
      else if n < 62 then 48 + (n - 52)
      else if n = 62 then 43
      else 47)"

text \<open>Modelled from the spec: the \<open>n\<close>-th letter of the alphabet as a code unit.\<close>

definition base64_char :: "nat \<Rightarrow> 16 word" where
  "base64_char n = of_nat (base64_code n)"

text \<open>Modelled from the spec: the position of a letter in the alphabet, if it is one.\<close>

definition base64_value :: "16 word \<Rightarrow> nat option" where
  "base64_value c =
     (let u = unat c
      in if 65 \<le> u \<and> u \<le> 90 then Some (u - 65)
         else if 97 \<le> u \<and> u \<le> 122 then Some (u - 97 + 26)
         else if 48 \<le> u \<and> u \<le> 57 then Some (u - 48 + 52)
         else if u = 43 then Some 62
         else if u = 47 then Some 63
         else None)"

text \<open>
  Modelled from the spec: the encoding. Three bytes give four letters; one or two
  remaining bytes give two or three letters and padding \<^verbatim>\<open>=\<close>.
\<close>

fun base64_encode :: "8 word list \<Rightarrow> jsstring" where
  "base64_encode [] = []"
| "base64_encode [a] =
     (let n = unat a * 65536
      in [base64_char (n div 262144), base64_char (n div 4096 mod 64), 0x3D, 0x3D])"
| "base64_encode [a, b] =
     (let n = unat a * 65536 + unat b * 256
      in [base64_char (n div 262144), base64_char (n div 4096 mod 64),
          base64_char (n div 64 mod 64), 0x3D])"
| "base64_encode (a # b # c # bs) =
     (let n = unat a * 65536 + unat b * 256 + unat c
      in [base64_char (n div 262144), base64_char (n div 4096 mod 64),
          base64_char (n div 64 mod 64), base64_char (n mod 64)] @ base64_encode bs)"

text \<open>Modelled from the spec: the decoding; \<open>None\<close> on a text that is not an encoding.\<close>

fun base64_decode :: "jsstring \<Rightarrow> 8 word list option" where
  "base64_decode [] = Some []"
| "base64_decode (c1 # c2 # c3 # c4 # cs) =
     (if cs = [] \<and> c3 = 0x3D \<and> c4 = 0x3D then
        (case (base64_value c1, base64_value c2) of
           (Some v1, Some v2) \<Rightarrow> Some [of_nat ((v1 * 64 + v2) div 16)]
         | _ \<Rightarrow> None)
      else if cs = [] \<and> c4 = 0x3D then
        (case (base64_value c1, base64_value c2, base64_value c3) of
           (Some v1, Some v2, Some v3) \<Rightarrow>
             (let n = (v1 * 64 + v2) * 64 + v3
              in Some [of_nat (n div 1024), of_nat (n div 4 mod 256)])
         | _ \<Rightarrow> None)
      else
        (case (base64_value c1, base64_value c2, base64_value c3, base64_value c4) of
           (Some v1, Some v2, Some v3, Some v4) \<Rightarrow>
             (let n = ((v1 * 64 + v2) * 64 + v3) * 64 + v4
              in map_option
                   (\<lambda>bs. of_nat (n div 65536) # of_nat (n div 256 mod 256) # of_nat (n mod 256) # bs)
                   (base64_decode cs))
         | _ \<Rightarrow> None))"
| "base64_decode cs = None"

section \<open>Concrete inputs\<close>

text \<open>
  A response text that is JSON, has every field the dashboard reads except
  \<^verbatim>\<open>executiveSummary\<close>, and the value \<^verbatim>\<open>JSON.parse\<close> gives for it.
\<close>

definition quoted :: "string \<Rightarrow> jsstring" where
  "quoted s = 0x22 # lit s @ [0x22]"

definition responseText_sample :: jsstring where
  "responseText_sample =
     lit ''{'' @ quoted ''metadata'' @ lit '':{'' @
       quoted ''title'' @ lit '':'' @ quoted ''T'' @ lit '','' @
       quoted ''author'' @ lit '':'' @ quoted ''A'' @ lit '','' @
       quoted ''genre'' @ lit '':'' @ quoted ''G'' @ lit '','' @
       quoted ''readingTime'' @ lit '':'' @ quoted ''1 h'' @ lit ''},'' @
     quoted ''keyConcepts'' @ lit '':[],'' @
     quoted ''chapterBreakdown'' @ lit '':[],'' @
     quoted ''topicStats'' @ lit '':[],'' @
     quoted ''fullMarkdownReport'' @ lit '':'' @ quoted ''# T'' @ lit ''}''"

definition jsonResponse_sample :: json where
  "jsonResponse_sample =
     JObject
       [(lit ''metadata'',
           JObject [(lit ''title'', JString (lit ''T'')), (lit ''author'', JString (lit ''A'')),
                    (lit ''genre'', JString (lit ''G'')),
                    (lit ''readingTime'', JString (lit ''1 h''))]),
        (lit ''keyConcepts'', JArray []),
        (lit ''chapterBreakdown'', JArray []),
        (lit ''topicStats'', JArray []),
        (lit ''fullMarkdownReport'', JString (lit ''# T''))]"

text \<open>
  A platform for evaluating the model at concrete inputs: the constructor succeeds, the
  reader delivers the given data URL, the service answers the given text, and
  \<^verbatim>\<open>JSON.parse\<close> is fixed at the two texts used below, as ECMAScript defines it there: the
  sample response parses to the sample value, the text \<^verbatim>\<open>{\<close> is a syntax error (this
  sample throws on every other text as well).
\<close>

definition JSON_parse_sample :: "jsstring \<Rightarrow> thrown + json" where
  "JSON_parse_sample t =
     (if t = responseText_sample then Inr jsonResponse_sample
      else Inl (Thrown (Some (lit ''Unexpected end of JSON input''))))"

definition platform_sample :: "jsstring \<Rightarrow> jsstring option \<Rightarrow> platform" where
  "platform_sample dataURL responseText =
     \<lparr>GoogleGenAI_new = None,
      readAsDataURL = (\<lambda>f. Fulfilled dataURL),
      generateContent = (\<lambda>req. Fulfilled responseText),
      JSON_parse = JSON_parse_sample\<rparr>"

text \<open>
  A platform whose \<^verbatim>\<open>GoogleGenAI\<close> constructor throws, as the SDK does in a browser when
  \<^verbatim>\<open>process.env.API_KEY\<close> is undefined.
\<close>

definition platform_nokey :: platform where
  "platform_nokey =
     \<lparr>GoogleGenAI_new =
        Some (Thrown (Some (lit ''An API Key must be set when running in a browser''))),
      readAsDataURL = (\<lambda>f. Pending),
      generateContent = (\<lambda>req. Pending),
      JSON_parse = JSON_parse_sample\<rparr>"

definition book_pdf :: File where
  "book_pdf = \<lparr>name = lit ''book.pdf'', type = lit ''application/pdf'',
                bytes = [0x25, 0x50, 0x44, 0x46]\<rparr>"

definition notes_txt :: File where
  "notes_txt = \<lparr>name = lit ''notes.txt'', type = [], bytes = [0x68, 0x69]\<rparr>"

definition notes_md :: File where
  "notes_md = \<lparr>name = lit ''notes.md'', type = lit ''text/x-markdown'',
                bytes = [0x23, 0x20, 0x41]\<rparr>"

definition sample_result :: AnalysisData where
  "sample_result =
     \<lparr>metadata = \<lparr>Metadata.title = lit ''My Book: Part One'', author = lit ''A. Author'',
                   genre = lit ''Essay'', readingTime = lit ''2 hours''\<rparr>,
      executiveSummary = lit ''A summary.'',
      keyConcepts =
        [\<lparr>term' = lit ''Entropy'', definition' = lit ''Disorder.'', importance = 50\<rparr>],
      chapterBreakdown =
        [\<lparr>title = lit ''One'', summary = lit ''Start.'', insight = lit ''Begin.''\<rparr>],
      topicStats = [\<lparr>topic = lit ''Physics'', relevance = 40\<rparr>,
                    \<lparr>topic = lit ''History'', relevance = 80\<rparr>],
      fullMarkdownReport = lit ''# Notes''\<rparr>"

section \<open>Properties of the file intake\<close>

lemma member_validTypes:
  "t \<in> set validTypes \<longleftrightarrow>
     t = lit ''text/markdown'' \<or> t = lit ''text/plain'' \<or> t = lit ''application/pdf''"
  by (auto simp: validTypes_def)

text \<open>
  Claim C3. A file whose name ends in \<^verbatim>\<open>.md\<close> or \<^verbatim>\<open>.markdown\<close> is accepted (handed to
  \<^verbatim>\<open>onFileSelect\<close>) whatever its declared media type, the empty one included; and the
  outcome of \<^verbatim>\<open>validateAndProcess\<close> is that of the ordered rule: markdown extension, else
  PDF media type or \<^verbatim>\<open>.pdf\<close> extension, else membership of the declared type in
  \<^verbatim>\<open>text/markdown\<close>, \<^verbatim>\<open>text/plain\<close>, \<^verbatim>\<open>application/pdf\<close>, else rejection (the alert).
\<close>

theorem validate_markdown_first:
  "(endsWith n (lit ''.md'') \<or> endsWith n (lit ''.markdown'') \<longrightarrow>
      validateAndProcess \<lparr>name = n, type = t, bytes = b\<rparr>
        = OnFileSelect \<lparr>name = n, type = t, bytes = b\<rparr>) \<and>
   validateAndProcess file =
     (if endsWith (name file) (lit ''.md'') \<or> endsWith (name file) (lit ''.markdown'')
        then OnFileSelect file
      else if type file = lit ''application/pdf'' \<or> endsWith (name file) (lit ''.pdf'')
        then OnFileSelect file
      else if type file \<in> {lit ''text/markdown'', lit ''text/plain'', lit ''application/pdf''}
        then OnFileSelect file
      else Alert (lit ''Please upload a PDF or Markdown file.''))"
  by (simp add: validateAndProcess_def member_validTypes)

theorem validate_markdown_first_witness:
  "endsWith (lit ''notes.md'') (lit ''.md'') \<and>
   validateAndProcess \<lparr>name = lit ''notes.md'', type = [], bytes = [1, 2]\<rparr>
     = OnFileSelect \<lparr>name = lit ''notes.md'', type = [], bytes = [1, 2]\<rparr> \<and>
   validateAndProcess \<lparr>name = lit ''notes.txt'', type = [], bytes = []\<rparr>
     = Alert (lit ''Please upload a PDF or Markdown file.'')"
proof -
  have md: "endsWith (lit ''notes.md'') (lit ''.md'')"
    by (simp add: endsWith_def lit_def)
  have no_ext: "\<not> endsWith (lit ''notes.txt'') (lit ''.md'')"
    "\<not> endsWith (lit ''notes.txt'') (lit ''.markdown'')"
    "\<not> endsWith (lit ''notes.txt'') (lit ''.pdf'')"
    by (simp_all add: endsWith_def lit_def)
  have ty: "([] :: jsstring) \<noteq> lit ''application/pdf''" "([] :: jsstring) \<noteq> lit ''text/markdown''"
    "([] :: jsstring) \<noteq> lit ''text/plain''"
    by (simp_all add: lit_def)
  from validate_markdown_first
         [of "lit ''notes.md''" "[]" "[1, 2]" "\<lparr>name = lit ''notes.txt'', type = [], bytes = []\<rparr>"]
  show ?thesis using md no_ext ty by simp
qed

section \<open>Helper facts\<close>

lemma handleFileSelect_parsed:
  assumes "GoogleGenAI_new env = None"
    and "readFileBase64 env file = Fulfilled base64Data"
    and "generateContent env (generateContent_request file base64Data) = Fulfilled (Some t)"
    and "t \<noteq> []"
  shows "handleFileSelect_try env file =
           (case JSON_parse env t of Inl e \<Rightarrow> Rejected e | Inr j \<Rightarrow> Fulfilled j)"
  using assms by (simp add: handleFileSelect_try_def)

lemma platform_sample_fields:
  "GoogleGenAI_new (platform_sample d r) = None"
  "readAsDataURL (platform_sample d r) f = Fulfilled d"
  "generateContent (platform_sample d r) req = Fulfilled r"
  "JSON_parse (platform_sample d r) = JSON_parse_sample"
  by (simp_all add: platform_sample_def)

lemma responseText_sample_facts:
  "responseText_sample \<noteq> []" "lit ''{'' \<noteq> responseText_sample" "lit ''{'' \<noteq> []"
  by (simp_all add: responseText_sample_def lit_def)

lemma JSON_parse_sample_at:
  "JSON_parse_sample responseText_sample = Inr jsonResponse_sample"
  "JSON_parse_sample (lit ''{'') = Inl (Thrown (Some (lit ''Unexpected end of JSON input'')))"
  using responseText_sample_facts(2) by (simp_all add: JSON_parse_sample_def)

lemma jsonResponse_sample_facts:
  "missing_required jsonResponse_sample" "truthy jsonResponse_sample"
  by (simp_all add: missing_required_def analysisSchema_def jsonResponse_sample_def lit_def)

lemma readFileBase64_sample:
  "readFileBase64 (platform_sample (lit ''data:application/pdf;base64,JVBERg=='') r) f
     = Fulfilled (Some (lit ''JVBERg==''))"
  by (simp add: readFileBase64_def platform_sample_fields) (simp add: lit_def)

lemma catch_message_nonempty: "catch_message e \<noteq> []"
  by (cases e) (simp add: catch_message_def lit_def split: option.splits)

lemma handleFileSelect_end_view:
  "handleFileSelect_end outcome st = Some st' \<Longrightarrow>
     view st' = dashboard \<or> view st' = upload \<and> error st' \<noteq> None"
  by (auto simp: handleFileSelect_end_def split: settled.splits)

lemma notes_txt_rejected:
  "validateAndProcess notes_txt = Alert (lit ''Please upload a PDF or Markdown file.'')"
proof -
  have "\<not> endsWith (lit ''notes.txt'') (lit ''.md'')"
    "\<not> endsWith (lit ''notes.txt'') (lit ''.markdown'')"
    "\<not> endsWith (lit ''notes.txt'') (lit ''.pdf'')"
    by (simp_all add: endsWith_def lit_def)
  moreover have "([] :: jsstring) \<noteq> lit ''application/pdf''" "([] :: jsstring) \<notin> set validTypes"
    by (simp_all add: lit_def validTypes_def)
  ultimately show ?thesis
    by (simp add: validateAndProcess_def notes_txt_def)
qed

section \<open>Properties of the workflow\<close>

text \<open>
  Claim C1, as the code has it. The claim says that a response that parses as JSON but lacks
  a required field is refused. The code stores whatever \<^verbatim>\<open>JSON.parse\<close> returns: when the
  service's text is not empty and parses, the workflow reaches the dashboard holding the
  parsed value, whatever fields it has; the call fails only when \<^verbatim>\<open>JSON.parse\<close> throws, and
  then the workflow is back in the upload view with the thrown message (or the default one)
  as error.
\<close>

theorem parsed_response_reaches_dashboard:
  assumes "GoogleGenAI_new env = None"
    and "readFileBase64 env file = Fulfilled base64Data"
    and "generateContent env (generateContent_request file base64Data) = Fulfilled (Some t)"
    and "t \<noteq> []"
  shows "(JSON_parse env t = Inr j \<longrightarrow>
            handleFileSelect env file st =
              [st\<lparr>view := processing, error := None\<rparr>,
               st\<lparr>view := dashboard, error := None, data := j\<rparr>]) \<and>
         (JSON_parse env t = Inl e \<longrightarrow>
            handleFileSelect env file st =
              [st\<lparr>view := processing, error := None\<rparr>,
               st\<lparr>view := upload, error := Some (catch_message e)\<rparr>])"
  using handleFileSelect_parsed [OF assms] assms(1)
  by (simp add: handleFileSelect_def handleFileSelect_begin_def handleFileSelect_end_def)

theorem parsed_response_reaches_dashboard_witness:
  "handleFileSelect
       (platform_sample (lit ''data:application/pdf;base64,JVBERg=='') (Some responseText_sample))
       book_pdf App_initial
     = [App_initial\<lparr>view := processing, error := None\<rparr>,
        App_initial\<lparr>view := dashboard, error := None, data := jsonResponse_sample\<rparr>] \<and>
   handleFileSelect
       (platform_sample (lit ''data:application/pdf;base64,JVBERg=='') (Some (lit ''{'')))
       book_pdf App_initial
     = [App_initial\<lparr>view := processing, error := None\<rparr>,
        App_initial\<lparr>view := upload, error := Some (lit ''Unexpected end of JSON input'')\<rparr>]"
proof -
  note ne = responseText_sample_facts(1) responseText_sample_facts(3)
  have m: "catch_message (Thrown (Some (lit ''Unexpected end of JSON input'')))
             = lit ''Unexpected end of JSON input''"
    by (simp add: catch_message_def lit_def)
  from parsed_response_reaches_dashboard
         [of "platform_sample (lit ''data:application/pdf;base64,JVBERg=='') (Some responseText_sample)"
             book_pdf "Some (lit ''JVBERg=='')" responseText_sample jsonResponse_sample App_initial,
          OF platform_sample_fields(1) readFileBase64_sample platform_sample_fields(3) ne(1)]
  have a: "handleFileSelect
       (platform_sample (lit ''data:application/pdf;base64,JVBERg=='') (Some responseText_sample))
       book_pdf App_initial
     = [App_initial\<lparr>view := processing, error := None\<rparr>,
        App_initial\<lparr>view := dashboard, error := None, data := jsonResponse_sample\<rparr>]"
    by (simp add: platform_sample_fields JSON_parse_sample_at)
  from parsed_response_reaches_dashboard
         [of "platform_sample (lit ''data:application/pdf;base64,JVBERg=='') (Some (lit ''{''))"
             book_pdf "Some (lit ''JVBERg=='')" "lit ''{''" _ App_initial
             "Thrown (Some (lit ''Unexpected end of JSON input''))",
          OF platform_sample_fields(1) readFileBase64_sample platform_sample_fields(3) ne(2)]
  have b: "handleFileSelect
       (platform_sample (lit ''data:application/pdf;base64,JVBERg=='') (Some (lit ''{'')))
       book_pdf App_initial
     = [App_initial\<lparr>view := processing, error := None\<rparr>,
        App_initial\<lparr>view := upload, error := Some (lit ''Unexpected end of JSON input'')\<rparr>]"
    using m by (simp add: platform_sample_fields JSON_parse_sample_at)
  from a b show ?thesis by simp
qed


text \<open>
  Claim C1 as stated fails: the sample response parses as JSON and lacks the required field
  \<^verbatim>\<open>executiveSummary\<close>, and the workflow ends in the dashboard view holding the parsed value.
\<close>

theorem missing_fields_reach_dashboard:
  "JSON_parse_sample responseText_sample = Inr jsonResponse_sample \<and>
   missing_required jsonResponse_sample \<and>
   handleFileSelect
       (platform_sample (lit ''data:application/pdf;base64,JVBERg=='') (Some responseText_sample))
       book_pdf App_initial
     = [App_initial\<lparr>view := processing\<rparr>,
        App_initial\<lparr>view := dashboard, data := jsonResponse_sample\<rparr>]"
proof -
  note p = JSON_parse_sample_at(1)
  note m = jsonResponse_sample_facts(1)
  note ne = responseText_sample_facts(1)
  have t: "handleFileSelect_try
       (platform_sample (lit ''data:application/pdf;base64,JVBERg=='') (Some responseText_sample))
       book_pdf = Fulfilled jsonResponse_sample"
    using ne by (simp add: handleFileSelect_try_def readFileBase64_sample platform_sample_fields p)
  show ?thesis using p m t
    by (simp add: handleFileSelect_def handleFileSelect_begin_def handleFileSelect_end_def
        App_initial_def platform_sample_fields(1))
qed

text \<open>
  Claim C8. When the service answers with no text (\<^verbatim>\<open>result.text\<close> undefined or empty), the
  \<^verbatim>\<open>try\<close> block throws \<^verbatim>\<open>No content generated\<close>, and the workflow ends in the upload view
  with that message as error, not in the dashboard.
\<close>

theorem empty_response_returns_to_upload:
  assumes "GoogleGenAI_new env = None"
    and "readFileBase64 env file = Fulfilled base64Data"
    and "generateContent env (generateContent_request file base64Data) = Fulfilled responseText"
    and "responseText = None \<or> responseText = Some []"
  shows "handleFileSelect_try env file = Rejected (Thrown (Some (lit ''No content generated''))) \<and>
         handleFileSelect env file st =
           [st\<lparr>view := processing, error := None\<rparr>,
            st\<lparr>view := upload, error := Some (lit ''No content generated'')\<rparr>]"
proof -
  have t: "handleFileSelect_try env file = Rejected (Thrown (Some (lit ''No content generated'')))"
    using assms by (auto simp: handleFileSelect_try_def)
  have m: "catch_message (Thrown (Some (lit ''No content generated''))) = lit ''No content generated''"
    by (simp add: catch_message_def lit_def)
  show ?thesis using t m assms(1)
    by (simp add: handleFileSelect_def handleFileSelect_begin_def handleFileSelect_end_def)
qed

theorem empty_response_returns_to_upload_witness:
  "handleFileSelect
       (platform_sample (lit ''data:application/pdf;base64,JVBERg=='') (Some []))
       book_pdf App_initial
     = [App_initial\<lparr>view := processing, error := None\<rparr>,
        App_initial\<lparr>view := upload, error := Some (lit ''No content generated'')\<rparr>]"
  using empty_response_returns_to_upload
         [of "platform_sample (lit ''data:application/pdf;base64,JVBERg=='') (Some [])"
             book_pdf "Some (lit ''JVBERg=='')" "Some []" App_initial,
          OF platform_sample_fields(1) readFileBase64_sample platform_sample_fields(3)]
  by simp

text \<open>
  Claim C2, as the code has it. A validated file submitted in the upload view, when the
  \<^verbatim>\<open>GoogleGenAI\<close> constructor does not throw, puts the application in the processing view
  first; the state that follows, if the call settles, is the dashboard or the upload view
  with an error. When the constructor throws, the application goes from the upload view
  straight to the upload view with the error and is never in the processing view. The only
  event of the processing view is the settling of the call, and it leaves the processing
  view. From the dashboard, the logo click leads to the upload view and every other event
  stays in the dashboard with the same data.
\<close>

theorem workflow_transitions:
  "(view st = upload \<and> validateAndProcess f = OnFileSelect f' \<and> GoogleGenAI_new env = None \<longrightarrow>
      step env (st, p) (Select f) = Some (handleFileSelect_begin st, Some f') \<and>
      (case handleFileSelect env f' st of
         [s1] \<Rightarrow> s1 = handleFileSelect_begin st \<and> view s1 = processing
       | [s1, s2] \<Rightarrow> s1 = handleFileSelect_begin st \<and> view s1 = processing \<and>
                     (view s2 = dashboard \<or> view s2 = upload \<and> error s2 \<noteq> None)
       | _ \<Rightarrow> False)) \<and>
   (view st = upload \<and> validateAndProcess f = OnFileSelect f' \<and> GoogleGenAI_new env = Some err \<longrightarrow>
      step env (st, p) (Select f)
        = Some (st\<lparr>view := upload, error := Some (catch_message err)\<rparr>, p) \<and>
      handleFileSelect env f' st = [st\<lparr>view := upload, error := Some (catch_message err)\<rparr>]) \<and>
   (view (fst c) = processing \<and> step env c ev = Some c' \<longrightarrow>
      ev = Settle \<and> view (fst c') \<noteq> processing) \<and>
   (view (fst d) = dashboard \<and> step env d ev' = Some d' \<longrightarrow>
      (if ev' = ClickLogo then fst d' = (fst d)\<lparr>view := upload\<rparr>
       else view (fst d') = dashboard \<and> data (fst d') = data (fst d)))"
proof (intro conjI impI)
  assume a: "view st = upload \<and> validateAndProcess f = OnFileSelect f' \<and> GoogleGenAI_new env = None"
  then show "step env (st, p) (Select f) = Some (handleFileSelect_begin st, Some f')"
    by (simp add: step_def)
  from a have n: "GoogleGenAI_new env = None"
    by simp
  show "case handleFileSelect env f' st of
         [s1] \<Rightarrow> s1 = handleFileSelect_begin st \<and> view s1 = processing
       | [s1, s2] \<Rightarrow> s1 = handleFileSelect_begin st \<and> view s1 = processing \<and>
                     (view s2 = dashboard \<or> view s2 = upload \<and> error s2 \<noteq> None)
       | _ \<Rightarrow> False"
  proof (cases "handleFileSelect_end (handleFileSelect_try env f') (handleFileSelect_begin st)")
    case None
    then show ?thesis
      by (simp add: handleFileSelect_def n) (simp add: handleFileSelect_begin_def)
  next
    case (Some s2)
    from handleFileSelect_end_view [OF this] Some show ?thesis
      by (simp add: handleFileSelect_def n) (simp add: handleFileSelect_begin_def)
  qed
next
  assume a: "view st = upload \<and> validateAndProcess f = OnFileSelect f' \<and> GoogleGenAI_new env = Some err"
  then show "step env (st, p) (Select f)
               = Some (st\<lparr>view := upload, error := Some (catch_message err)\<rparr>, p)"
    by (simp add: step_def handleFileSelect_begin_def)
  from a show "handleFileSelect env f' st = [st\<lparr>view := upload, error := Some (catch_message err)\<rparr>]"
    by (simp add: handleFileSelect_def handleFileSelect_begin_def)
next
  assume a: "view (fst c) = processing \<and> step env c ev = Some c'"
  then show "ev = Settle"
    by (auto simp: step_def split: event.splits option.splits)
  from a obtain f s' where "handleFileSelect_end (handleFileSelect_try env f) (fst c) = Some s'"
    and "c' = (s', None)"
    by (auto simp: step_def split: event.splits option.splits)
  with handleFileSelect_end_view show "view (fst c') \<noteq> processing"
    by fastforce
next
  assume a: "view (fst d) = dashboard \<and> step env d ev' = Some d'"
  then show "if ev' = ClickLogo then fst d' = (fst d)\<lparr>view := upload\<rparr>
       else view (fst d') = dashboard \<and> data (fst d') = data (fst d)"
    by (cases ev') (auto simp: step_def Let_def split: if_splits)
qed

theorem workflow_transitions_witness:
  "view App_initial = upload \<and>
   validateAndProcess book_pdf = OnFileSelect book_pdf \<and>
   GoogleGenAI_new
       (platform_sample (lit ''data:application/pdf;base64,JVBERg=='') (Some responseText_sample))
     = None \<and>
   step (platform_sample (lit ''data:application/pdf;base64,JVBERg=='') (Some responseText_sample))
        (App_initial, None) (Select book_pdf)
     = Some (handleFileSelect_begin App_initial, Some book_pdf) \<and>
   view (handleFileSelect_begin App_initial) = processing \<and>
   GoogleGenAI_new platform_nokey
     = Some (Thrown (Some (lit ''An API Key must be set when running in a browser''))) \<and>
   step platform_nokey (App_initial, None) (Select book_pdf)
     = Some (App_initial
               \<lparr>view := upload,
                error := Some (lit ''An API Key must be set when running in a browser'')\<rparr>, None) \<and>
   step (platform_sample (lit ''data:application/pdf;base64,JVBERg=='') (Some responseText_sample))
        (App_initial\<lparr>view := processing\<rparr>, Some book_pdf) Settle
     = Some (App_initial\<lparr>view := dashboard, data := jsonResponse_sample\<rparr>, None) \<and>
   step (platform_sample (lit ''data:application/pdf;base64,JVBERg=='') (Some responseText_sample))
        (App_initial\<lparr>view := dashboard, data := jsonResponse_sample\<rparr>, None) ClickLogo
     = Some (App_initial\<lparr>view := upload, data := jsonResponse_sample\<rparr>, None)"
proof -
  let ?env = "platform_sample (lit ''data:application/pdf;base64,JVBERg=='') (Some responseText_sample)"
  let ?err = "Thrown (Some (lit ''An API Key must be set when running in a browser''))"
  have v: "view App_initial = upload"
    by (simp add: App_initial_def)
  have ok: "validateAndProcess book_pdf = OnFileSelect book_pdf"
    by (simp add: validateAndProcess_def book_pdf_def)
  have k: "GoogleGenAI_new platform_nokey = Some ?err"
    by (simp add: platform_nokey_def)
  have m: "catch_message ?err = lit ''An API Key must be set when running in a browser''"
    by (simp add: catch_message_def lit_def)
  have t: "handleFileSelect_try ?env book_pdf = Fulfilled jsonResponse_sample"
    using handleFileSelect_parsed
            [OF platform_sample_fields(1) readFileBase64_sample platform_sample_fields(3)
                responseText_sample_facts(1)]
    by (simp add: platform_sample_fields JSON_parse_sample_at)
  have s2: "step ?env (App_initial\<lparr>view := processing\<rparr>, Some book_pdf) Settle
              = Some (App_initial\<lparr>view := dashboard, data := jsonResponse_sample\<rparr>, None)"
    using t by (simp add: step_def handleFileSelect_end_def)
  have s3: "step ?env (App_initial\<lparr>view := dashboard, data := jsonResponse_sample\<rparr>, None) ClickLogo
              = Some (App_initial\<lparr>view := upload, data := jsonResponse_sample\<rparr>, None)"
    by (simp add: step_def jsonResponse_sample_facts)
  from workflow_transitions
         [of App_initial book_pdf book_pdf ?env None _
             "(App_initial\<lparr>view := processing\<rparr>, Some book_pdf)" Settle
             "(App_initial\<lparr>view := dashboard, data := jsonResponse_sample\<rparr>, None)"
             "(App_initial\<lparr>view := dashboard, data := jsonResponse_sample\<rparr>, None)" ClickLogo
             "(App_initial\<lparr>view := upload, data := jsonResponse_sample\<rparr>, None)"]
       v ok s2 s3 platform_sample_fields(1)
  have a: "step ?env (App_initial, None) (Select book_pdf)
             = Some (handleFileSelect_begin App_initial, Some book_pdf)"
    by simp
  from workflow_transitions [of App_initial book_pdf book_pdf platform_nokey None ?err] v ok k m
  have b: "step platform_nokey (App_initial, None) (Select book_pdf)
     = Some (App_initial
               \<lparr>view := upload,
                error := Some (lit ''An API Key must be set when running in a browser'')\<rparr>, None)"
    by simp
  from a b v ok k s2 s3 show ?thesis
    by (simp add: handleFileSelect_begin_def platform_sample_fields(1))
qed

text \<open>
  Claim C2 as stated fails: with a constructor that throws, the accepted file
  \<^verbatim>\<open>book.pdf\<close> submitted in the initial state leads to one state only, the upload view with
  the error; the application is not in the processing view before it.
\<close>

theorem constructor_failure_skips_processing:
  "view App_initial = upload \<and>
   validateAndProcess book_pdf = OnFileSelect book_pdf \<and>
   handleFileSelect platform_nokey book_pdf App_initial
     = [App_initial
          \<lparr>view := upload,
           error := Some (lit ''An API Key must be set when running in a browser'')\<rparr>] \<and>
   step platform_nokey (App_initial, None) (Select book_pdf)
     = Some (App_initial
               \<lparr>view := upload,
                error := Some (lit ''An API Key must be set when running in a browser'')\<rparr>, None) \<and>
   upload \<noteq> processing"
proof -
  have ok: "validateAndProcess book_pdf = OnFileSelect book_pdf"
    by (simp add: validateAndProcess_def book_pdf_def)
  have k: "GoogleGenAI_new platform_nokey
             = Some (Thrown (Some (lit ''An API Key must be set when running in a browser'')))"
    by (simp add: platform_nokey_def)
  have m: "catch_message (Thrown (Some (lit ''An API Key must be set when running in a browser'')))
             = lit ''An API Key must be set when running in a browser''"
    by (simp add: catch_message_def lit_def)
  show ?thesis using ok k m
    by (simp add: handleFileSelect_def step_def handleFileSelect_begin_def App_initial_def)
qed

text \<open>
  Claim C5, as the code has it. A file that \<^verbatim>\<open>validateAndProcess\<close> rejects leaves the state
  as it is (upload view, error untouched); the rejection is shown by a browser alert with a
  fixed message, not written to the \<^verbatim>\<open>error\<close> cell that extraction failures use.
\<close>

theorem rejected_file_raises_alert:
  "view st = upload \<Longrightarrow> validateAndProcess f = Alert m \<Longrightarrow>
     m = lit ''Please upload a PDF or Markdown file.'' \<and>
     step env (st, p) (Select f) = Some (st, p)"
  by (auto simp: step_def validateAndProcess_def Let_def split: if_splits)

theorem rejected_file_raises_alert_witness:
  "view App_initial = upload \<and>
   validateAndProcess notes_txt = Alert (lit ''Please upload a PDF or Markdown file.'') \<and>
   step (platform_sample [] None) (App_initial, None) (Select notes_txt) = Some (App_initial, None)"
proof -
  have v: "view App_initial = upload" by (simp add: App_initial_def)
  from rejected_file_raises_alert [OF v notes_txt_rejected] v notes_txt_rejected
  show ?thesis by simp
qed

text \<open>
  Claim C5 as stated fails: \<^verbatim>\<open>notes.txt\<close> with an empty declared type is rejected, and the
  \<^verbatim>\<open>error\<close> cell stays empty; the message goes to the alert.
\<close>

theorem rejection_not_in_lastError:
  "validateAndProcess notes_txt = Alert (lit ''Please upload a PDF or Markdown file.'') \<and>
   step (platform_sample [] None) (App_initial, None) (Select notes_txt) = Some (App_initial, None) \<and>
   error App_initial = None"
  using notes_txt_rejected
  by (simp add: step_def App_initial_def)

text \<open>
  Claim C4, as the code has it. The media type written into the request is never
  \<^verbatim>\<open>text/markdown\<close>: a declared \<^verbatim>\<open>text/markdown\<close> becomes \<^verbatim>\<open>text/plain\<close>. It is one of
  \<^verbatim>\<open>application/pdf\<close> and \<^verbatim>\<open>text/plain\<close> when the declared type is empty or on the
  allow-list; any other declared type is transmitted as it is.
\<close>

theorem transmitted_media_type:
  "inlineData_mimeType f \<noteq> lit ''text/markdown'' \<and>
   (type f = lit ''text/markdown'' \<longrightarrow> inlineData_mimeType f = lit ''text/plain'') \<and>
   (type f = [] \<or> type f \<in> set validTypes \<longrightarrow>
      inlineData_mimeType f \<in> {lit ''application/pdf'', lit ''text/plain''}) \<and>
   (type f \<noteq> [] \<and> type f \<noteq> lit ''text/markdown'' \<longrightarrow> inlineData_mimeType f = type f) \<and>
   hd (contents_parts (generateContent_request f base64Data))
     = InlineData (inlineData_mimeType f) base64Data"
proof -
  have ne: "lit ''text/plain'' \<noteq> lit ''text/markdown''" "lit ''application/pdf'' \<noteq> lit ''text/markdown''"
    "lit ''text/markdown'' \<noteq> []"
    by (simp_all add: lit_def)
  show ?thesis using ne
    by (auto simp: inlineData_mimeType_def mimeType_def generateContent_request_def parts_def
        validTypes_def)
qed

theorem transmitted_media_type_witness:
  "type \<lparr>name = lit ''notes.md'', type = lit ''text/markdown'', bytes = []\<rparr>
     \<in> set validTypes \<and>
   inlineData_mimeType \<lparr>name = lit ''notes.md'', type = lit ''text/markdown'', bytes = []\<rparr>
     = lit ''text/plain'' \<and>
   type notes_md \<noteq> [] \<and> type notes_md \<noteq> lit ''text/markdown'' \<and>
   inlineData_mimeType notes_md = type notes_md"
proof -
  have ne: "lit ''text/x-markdown'' \<noteq> []" "lit ''text/x-markdown'' \<noteq> lit ''text/markdown''"
    by (simp_all add: lit_def)
  from transmitted_media_type
         [of "\<lparr>name = lit ''notes.md'', type = lit ''text/markdown'', bytes = []\<rparr>" None]
       transmitted_media_type [of notes_md None] ne
  show ?thesis
    by (simp add: validTypes_def notes_md_def)
qed

text \<open>
  Claim C4 as stated fails: \<^verbatim>\<open>notes.md\<close> declared as \<^verbatim>\<open>text/x-markdown\<close> is accepted by its
  extension and \<^verbatim>\<open>text/x-markdown\<close> is what the request carries.
\<close>

theorem declared_type_transmitted_unchanged:
  "validateAndProcess notes_md = OnFileSelect notes_md \<and>
   inlineData_mimeType notes_md = lit ''text/x-markdown'' \<and>
   inlineData_mimeType notes_md \<notin> {lit ''application/pdf'', lit ''text/plain''}"
proof -
  have md: "endsWith (lit ''notes.md'') (lit ''.md'')"
    by (simp add: endsWith_def lit_def)
  have ne: "lit ''text/x-markdown'' \<noteq> []" "lit ''text/x-markdown'' \<noteq> lit ''text/markdown''"
    "lit ''text/x-markdown'' \<noteq> lit ''application/pdf''" "lit ''text/x-markdown'' \<noteq> lit ''text/plain''"
    by (simp_all add: lit_def)
  show ?thesis using md ne
    by (simp add: validateAndProcess_def notes_md_def inlineData_mimeType_def mimeType_def)
qed


section \<open>Helper facts: runs, charts and the transport encoding\<close>

lemma concat_runs: "concat (runs P xs) = xs"
  by (induction P xs rule: runs.induct) simp_all

lemma replace_whitespace_prefix:
  "\<forall>c \<in> set a. \<not> WhiteSpace c \<Longrightarrow> replace_whitespace r (a @ b) = a @ replace_whitespace r b"
  by (induction a) simp_all

lemma replace_whitespace_runs: "replace_whitespace (lit ''_'') s = underscore_runs s"
  unfolding underscore_runs_def
proof (induction WhiteSpace s rule: runs.induct)
  case 1
  then show ?case by simp
next
  case (2 x xs)
  show ?case
  proof (cases "WhiteSpace x")
    case True
    then have e: "(\<lambda>y. WhiteSpace y = WhiteSpace x) = WhiteSpace" by auto
    have "list_all WhiteSpace (takeWhile WhiteSpace xs)"
      by (auto simp: list_all_iff dest: set_takeWhileD)
    with True 2 e show ?thesis by simp
  next
    case False
    then have e: "(\<lambda>y. WhiteSpace y = WhiteSpace x) = (\<lambda>y. \<not> WhiteSpace y)" by auto
    have "replace_whitespace (lit ''_'') xs =
            replace_whitespace (lit ''_'')
              (takeWhile (\<lambda>y. \<not> WhiteSpace y) xs @ dropWhile (\<lambda>y. \<not> WhiteSpace y) xs)"
      by simp
    also have "\<dots> = takeWhile (\<lambda>y. \<not> WhiteSpace y) xs @
            replace_whitespace (lit ''_'') (dropWhile (\<lambda>y. \<not> WhiteSpace y) xs)"
      by (rule replace_whitespace_prefix) (auto dest: set_takeWhileD)
    finally show ?thesis using False 2 e by simp
  qed
qed

lemma runs_homogeneous:
  "run \<in> set (runs P xs) \<Longrightarrow> run \<noteq> [] \<and> (\<forall>y \<in> set run. P y = P (hd run))"
proof (induction P xs rule: runs.induct)
  case (1 P)
  then show ?case by simp
next
  case (2 P x xs)
  from "2.prems" have "run = x # takeWhile (\<lambda>y. P y = P x) xs
    \<or> run \<in> set (runs P (dropWhile (\<lambda>y. P y = P x) xs))"
    by (simp only: runs.simps set_simps insert_iff)
  then show ?case
  proof
    assume 1: "run = x # takeWhile (\<lambda>y. P y = P x) xs"
    have tw: "P y = P x" if "y \<in> set (takeWhile (\<lambda>y. P y = P x) xs)" for y
      using set_takeWhileD [OF that] by (rule conjunct2)
    have "P y = P (hd run)" if "y \<in> set run" for y
    proof -
      from that 1 have "y = x \<or> y \<in> set (takeWhile (\<lambda>y. P y = P x) xs)"
        by (simp only: set_simps insert_iff)
      then have "P y = P x"
      proof
        assume "y = x"
        then show ?thesis by (simp only:)
      next
        assume "y \<in> set (takeWhile (\<lambda>y. P y = P x) xs)"
        then show ?thesis by (rule tw)
      qed
      moreover from 1 have "hd run = x" by (simp only: list.sel)
      ultimately show ?thesis by (simp only:)
    qed
    moreover from 1 have "run \<noteq> []" by (simp only: list.distinct not_False_eq_True)
    ultimately show ?thesis by (intro conjI ballI)
  next
    assume "run \<in> set (runs P (dropWhile (\<lambda>y. P y = P x) xs))"
    then show ?thesis by (rule "2.IH")
  qed
qed


lemma runs_maximal: "successively (\<lambda>a b. P (hd a) \<noteq> P (hd b)) (runs P xs)"
proof (induction P xs rule: runs.induct)
  case (1 P)
  then show ?case by simp
next
  case (2 P x xs)
  show ?case
  proof (cases "dropWhile (\<lambda>y. P y = P x) xs")
    case Nil
    then have "runs P (dropWhile (\<lambda>y. P y = P x) xs) = []"
      by (simp only: runs.simps)
    then show ?thesis
      by (simp only: runs.simps successively.simps)
  next
    case (Cons z zs)
    have "\<not> (P (hd (dropWhile (\<lambda>y. P y = P x) xs)) = P x)"
      by (rule hd_dropWhile) (simp only: Cons list.distinct not_False_eq_True)
    then have ne: "P x \<noteq> P z"
      by (simp only: Cons list.sel)
    have r: "runs P (dropWhile (\<lambda>y. P y = P x) xs)
               = (z # takeWhile (\<lambda>y. P y = P z) zs) # runs P (dropWhile (\<lambda>y. P y = P z) zs)"
      by (simp only: Cons runs.simps)
    from "2.IH" have ih: "successively (\<lambda>a b. P (hd a) \<noteq> P (hd b))
                        ((z # takeWhile (\<lambda>y. P y = P z) zs) # runs P (dropWhile (\<lambda>y. P y = P z) zs))"
      by (simp only: r)
    have e: "runs P (x # xs)
               = (x # takeWhile (\<lambda>y. P y = P x) xs) #
                 (z # takeWhile (\<lambda>y. P y = P z) zs) # runs P (dropWhile (\<lambda>y. P y = P z) zs)"
      by (simp only: runs.simps r)
    show ?thesis
      unfolding e successively.simps(3) list.sel
      using ne ih by (rule conjI)
  qed
qed

lemma fold_max_Max: "fold max xs (a::int) = Max (insert a (set xs))"
  using Max.set_eq_fold [of a xs] by simp


lemma BarChart_width:
  "map bar_width (BarChart ds)
     = map (\<lambda>item. of_int (value' item) / of_int (Max (insert 1 (set (map value' ds)))) * 100) ds"
  by (simp add: BarChart_def Let_def fold_max_Max)

lemma map_snd_enumerate_fun: "map (\<lambda>x. f (snd x)) (enumerate n xs) = map f xs"
  by (induction xs arbitrary: n) simp_all

lemma base64_code_less: "base64_code n < 65536"
  by (auto simp: base64_code_def)

lemma unat_base64_char: "unat (base64_char n) = base64_code n"
proof -
  have "unat (word_of_nat (base64_code n) :: 16 word) = base64_code n mod 65536"
    by (simp only: unat_of_nat) simp
  with base64_code_less [of n] show ?thesis
    by (simp only: base64_char_def mod_less)
qed

lemma base64_value_char: "n < 64 \<Longrightarrow> base64_value (base64_char n) = Some n"
  by (auto simp: base64_value_def unat_base64_char Let_def base64_code_def)

lemma base64_char_not_pad: "n < 64 \<Longrightarrow> base64_char n \<noteq> 0x3D"
proof
  assume "n < 64" "base64_char n = 0x3D"
  then have "unat (base64_char n) = 61" by simp
  with \<open>n < 64\<close> show False by (auto simp: unat_base64_char base64_code_def split: if_splits)
qed

lemma base64_char_not_comma: "n < 64 \<Longrightarrow> base64_char n \<noteq> 0x2C"
proof
  assume "n < 64" "base64_char n = 0x2C"
  then have "unat (base64_char n) = 44" by simp
  with \<open>n < 64\<close> show False by (auto simp: unat_base64_char base64_code_def split: if_splits)
qed


lemma div_4096: "(n::nat) div 4096 = n div 64 div 64"
  by (simp add: div_mult2_eq [symmetric])

lemma div_262144: "(n::nat) div 262144 = n div 64 div 64 div 64"
  by (simp add: div_mult2_eq [symmetric])

lemma sextets_rejoin1: "n div 262144 * 64 + n div 4096 mod 64 = (n::nat) div 4096"
  unfolding div_4096 div_262144 by (rule div_mult_mod_eq)

lemma sextets_rejoin2:
  "(n div 262144 * 64 + n div 4096 mod 64) * 64 + n div 64 mod 64 = (n::nat) div 64"
  unfolding sextets_rejoin1 unfolding div_4096 by (rule div_mult_mod_eq)

lemma sextets_rejoin:
  "((n div 262144 * 64 + n div 4096 mod 64) * 64 + n div 64 mod 64) * 64 + n mod 64 = (n::nat)"
  unfolding sextets_rejoin2 by (rule div_mult_mod_eq)

lemma sextet_less: "n < 16777216 \<Longrightarrow> (n::nat) div 262144 < 64"
  by (simp add: less_mult_imp_div_less)

lemma bytes_split:
  fixes x y z :: nat
  assumes "x < 256" "y < 256" "z < 256"
  shows "(x * 65536 + y * 256 + z) div 65536 = x"
    and "(x * 65536 + y * 256 + z) div 256 mod 256 = y"
    and "(x * 65536 + y * 256 + z) mod 256 = z"
    and "x * 65536 + y * 256 + z < 16777216"
proof -
  from assms have r: "y * 256 + z < 65536" by simp
  have "(x * 65536 + (y * 256 + z)) div 65536 = x"
    using r by simp
  then show "(x * 65536 + y * 256 + z) div 65536 = x"
    by (simp add: add.assoc)
  have e: "(x * 65536 + y * 256 + z) = (x * 256 + y) * 256 + z"
    by simp
  then have d: "(x * 65536 + y * 256 + z) div 256 = x * 256 + y"
    using assms(3) by simp
  show "(x * 65536 + y * 256 + z) div 256 mod 256 = y"
    unfolding d using assms(2) by simp
  show "(x * 65536 + y * 256 + z) mod 256 = z"
    unfolding e using assms(3) by (simp only: mod_mult_self3 mod_less)
  from assms show "x * 65536 + y * 256 + z < 16777216"
    by simp
qed


lemma unat_byte: "unat (a :: 8 word) < 256"
  using unsigned_less [of a, where 'a = nat] by simp

lemma base64_decode_values:
  assumes "base64_value c1 = Some v1" "base64_value c2 = Some v2"
  shows "c3 \<noteq> 0x3D \<Longrightarrow> c4 \<noteq> 0x3D \<Longrightarrow>
           base64_value c3 = Some v3 \<Longrightarrow> base64_value c4 = Some v4 \<Longrightarrow>
           base64_decode (c1 # c2 # c3 # c4 # cs)
             = map_option
                 (\<lambda>bs. of_nat ((((v1 * 64 + v2) * 64 + v3) * 64 + v4) div 65536) #
                       of_nat ((((v1 * 64 + v2) * 64 + v3) * 64 + v4) div 256 mod 256) #
                       of_nat ((((v1 * 64 + v2) * 64 + v3) * 64 + v4) mod 256) # bs)
                 (base64_decode cs)"
    and "c3 \<noteq> 0x3D \<Longrightarrow> base64_value c3 = Some v3 \<Longrightarrow>
           base64_decode [c1, c2, c3, 0x3D]
             = Some [of_nat (((v1 * 64 + v2) * 64 + v3) div 1024),
                     of_nat (((v1 * 64 + v2) * 64 + v3) div 4 mod 256)]"
    and "base64_decode [c1, c2, 0x3D, 0x3D] = Some [of_nat ((v1 * 64 + v2) div 16)]"
  using assms by (simp_all add: Let_def)

lemma base64_decode_quad:
  assumes "n < 16777216"
  shows "base64_decode (base64_char (n div 262144) # base64_char (n div 4096 mod 64) #
                        base64_char (n div 64 mod 64) # base64_char (n mod 64) # cs)
           = map_option
               (\<lambda>bs. of_nat (n div 65536) # of_nat (n div 256 mod 256) # of_nat (n mod 256) # bs)
               (base64_decode cs)"
proof -
  have v: "n div 262144 < 64" "n div 4096 mod 64 < 64" "n div 64 mod 64 < 64" "n mod 64 < 64"
    using assms by (simp_all add: sextet_less)
  show ?thesis
    using base64_decode_values(1)
      [OF base64_value_char [OF v(1)] base64_value_char [OF v(2)]
          base64_char_not_pad [OF v(3)] base64_char_not_pad [OF v(4)]
          base64_value_char [OF v(3)] base64_value_char [OF v(4)], of cs]
    by (simp only: sextets_rejoin)
qed

lemma base64_decode_pad1:
  assumes "n < 16777216"
  shows "base64_decode [base64_char (n div 262144), base64_char (n div 4096 mod 64),
                        base64_char (n div 64 mod 64), 0x3D]
           = Some [of_nat (n div 64 div 1024), of_nat (n div 64 div 4 mod 256)]"
proof -
  have v: "n div 262144 < 64" "n div 4096 mod 64 < 64" "n div 64 mod 64 < 64"
    using assms by (simp_all add: sextet_less)
  show ?thesis
    using base64_decode_values(2)
      [OF base64_value_char [OF v(1)] base64_value_char [OF v(2)]
          base64_char_not_pad [OF v(3)] base64_value_char [OF v(3)]]
    by (simp only: sextets_rejoin2)
qed

lemma base64_decode_pad2:
  assumes "n < 16777216"
  shows "base64_decode [base64_char (n div 262144), base64_char (n div 4096 mod 64), 0x3D, 0x3D]
           = Some [of_nat (n div 4096 div 16)]"
proof -
  have v: "n div 262144 < 64" "n div 4096 mod 64 < 64"
    using assms by (simp_all add: sextet_less)
  show ?thesis
    using base64_decode_values(3)
      [OF base64_value_char [OF v(1)] base64_value_char [OF v(2)]]
    by (simp only: sextets_rejoin1)
qed

lemma base64_roundtrip: "base64_decode (base64_encode bs) = Some bs"
proof (induction bs rule: base64_encode.induct)
  case 1
  then show ?case by simp
next
  case (2 a)
  have n: "unat a * 65536 < 16777216"
    using unat_byte [of a] by simp
  have "unat a * 65536 div 4096 div 16 = unat a"
    by simp
  with base64_decode_pad2 [OF n] show ?case
    by (simp add: Let_def)
next
  case (3 a b)
  have n: "unat a * 65536 + unat b * 256 < 16777216"
    using unat_byte [of a] unat_byte [of b] by simp
  have e: "(unat a * 65536 + unat b * 256) div 64 = unat a * 1024 + unat b * 4"
    by simp
  have "(unat a * 1024 + unat b * 4) div 1024 = unat a"
    using unat_byte [of b] by simp
  moreover have "(unat a * 1024 + unat b * 4) div 4 mod 256 = unat b"
    using unat_byte [of b] by simp
  ultimately show ?case
    using base64_decode_pad1 [OF n] by (simp add: Let_def e)
next
  case (4 a b c bs)
  note s = bytes_split [OF unat_byte [of a] unat_byte [of b] unat_byte [of c]]
  show ?case
    using base64_decode_quad [OF s(4), of "base64_encode bs"] 4
    by (simp add: Let_def s(1-3))
qed


lemma split_no_separator: "sep \<notin> set p \<Longrightarrow> split sep p = [p]"
  by (induction p) auto

lemma split_prefix: "sep \<notin> set h \<Longrightarrow> split sep (h @ sep # rest) = h # split sep rest"
  by (induction h) auto

lemma index_payload:
  assumes "sep \<notin> set h" "sep \<notin> set p"
  shows "index (split sep (h @ sep # p)) 1 = Some p"
  using assms by (simp add: split_prefix split_no_separator)

lemma base64_encode_no_comma: "0x2C \<notin> set (base64_encode bs)"
proof (induction bs rule: base64_encode.induct)
  case 1
  then show ?case by simp
next
  case (2 a)
  have "unat a * 65536 < 16777216" using unat_byte [of a] by simp
  then have "unat a * 65536 div 262144 < 64" by (rule sextet_less)
  then show ?case
    by (simp add: Let_def base64_char_not_comma [symmetric] del: of_nat_add of_nat_mult)
next
  case (3 a b)
  have "unat a * 65536 + unat b * 256 < 16777216"
    using unat_byte [of a] unat_byte [of b] by simp
  then have "(unat a * 65536 + unat b * 256) div 262144 < 64" by (rule sextet_less)
  then show ?case
    by (simp add: Let_def base64_char_not_comma [symmetric])
next
  case (4 a b c bs)
  note s = bytes_split [OF unat_byte [of a] unat_byte [of b] unat_byte [of c]]
  from s(4) have "(unat a * 65536 + unat b * 256 + unat c) div 262144 < 64" by (rule sextet_less)
  with 4 show ?case
    by (simp add: Let_def base64_char_not_comma [symmetric])
qed


lemma base64_book_pdf: "base64_encode (bytes book_pdf) = lit ''JVBERg==''"
  by (simp add: book_pdf_def base64_char_def base64_code_def lit_def)

section \<open>Properties of the transport encoding\<close>

text \<open>
  Claim C6. For every byte content, when the browser delivers a data URL made of a header
  without comma, a comma and the base-64 text of the bytes, \<^verbatim>\<open>readFileBase64\<close> returns
  exactly that text, and decoding it yields the bytes again.
\<close>

theorem transport_encoding_roundtrip:
  assumes "readAsDataURL env f = Fulfilled (header @ 0x2C # base64_encode (bytes f))"
    and "0x2C \<notin> set header"
  shows "readFileBase64 env f = Fulfilled (Some (base64_encode (bytes f))) \<and>
         base64_decode (base64_encode (bytes f)) = Some (bytes f)"
proof -
  have i: "index (split 0x2C (header @ 0x2C # base64_encode (bytes f))) 1
             = Some (base64_encode (bytes f))"
    using assms(2) base64_encode_no_comma by (rule index_payload)
  have "readFileBase64 env f
          = Fulfilled (index (split 0x2C (header @ 0x2C # base64_encode (bytes f))) 1)"
    by (simp only: readFileBase64_def assms(1) settled.case)
  then show ?thesis
    by (simp only: i base64_roundtrip simp_thms)
qed

theorem transport_encoding_roundtrip_witness:
  "readFileBase64 (platform_sample (lit ''data:application/pdf;base64,JVBERg=='') None) book_pdf
     = Fulfilled (Some (lit ''JVBERg=='')) \<and>
   base64_decode (lit ''JVBERg=='') = Some [0x25, 0x50, 0x44, 0x46]"
proof -
  have u: "lit ''data:application/pdf;base64,JVBERg==''
             = lit ''data:application/pdf;base64'' @ 0x2C # lit ''JVBERg==''"
    by (simp add: lit_def)
  have r: "readAsDataURL (platform_sample (lit ''data:application/pdf;base64,JVBERg=='') None) book_pdf
             = Fulfilled (lit ''data:application/pdf;base64'' @ 0x2C # base64_encode (bytes book_pdf))"
    by (simp only: platform_sample_fields base64_book_pdf u)
  have h: "0x2C \<notin> set (lit ''data:application/pdf;base64'')"
    by (simp add: lit_def)
  have b: "bytes book_pdf = [0x25, 0x50, 0x44, 0x46]"
    by (simp add: book_pdf_def)
  have e: "base64_encode [0x25, 0x50, 0x44, 0x46] = lit ''JVBERg==''"
    using base64_book_pdf by (simp only: b)
  from transport_encoding_roundtrip [OF r h] show ?thesis
    by (simp only: b e)
qed

section \<open>Properties of the views\<close>

text \<open>
  Claim C7. With a result in hand, the export is a download whose name is the title with
  each maximal run of whitespace replaced by one underscore, followed by \<^verbatim>\<open>_Notes.md\<close>, and
  whose content is the full Markdown report, unchanged.
\<close>

theorem export_artifact:
  "handleDownload (Some d) =
     Some \<lparr>blob_parts = [fullMarkdownReport d],
           blob_type = lit ''text/markdown'',
           download_name = underscore_runs (Metadata.title (metadata d)) @ lit ''_Notes.md''\<rparr>"
  by (simp add: handleDownload_def replace_whitespace_runs)

lemma export_scenario:
  "map_option download_name (handleDownload (Some sample_result))
     = Some (lit ''My_Book:_Part_One_Notes.md'')"
  by (simp add: handleDownload_def sample_result_def) (simp add: lit_def WhiteSpace_def)

text \<open>
  Claim C9, as the code has it. The displayed numbers are the stored values in both panels.
  A topic bar's width is the value divided by the larger of 1 and the maximum of the series
  (the maximum itself when it is at least 1), times 100; a concept bar's width is the stored
  importance itself, as a percentage, not a share of the series maximum.
\<close>

theorem analytics_bars:
  "map bar_text (TopThemes d) = map relevance (topicStats d) \<and>
   map bar_width (TopThemes d)
     = map (\<lambda>t. of_int (relevance t) / of_int (Max (insert 1 (set (map relevance (topicStats d))))) * 100)
           (topicStats d) \<and>
   (topicStats d \<noteq> [] \<and> 1 \<le> Max (set (map relevance (topicStats d))) \<longrightarrow>
      map bar_width (TopThemes d)
        = map (\<lambda>t. of_int (relevance t) / of_int (Max (set (map relevance (topicStats d)))) * 100)
              (topicStats d)) \<and>
   map impact_text (ConceptImpact d) = map importance (take 5 (keyConcepts d)) \<and>
   map impact_width (ConceptImpact d) = map importance (take 5 (keyConcepts d))"
proof -
  have t: "TopThemes d = BarChart (map (\<lambda>t. \<lparr>label = topic t, value' = relevance t\<rparr>) (topicStats d))"
    by (simp add: TopThemes_def tab_views_def)
  have v: "map value' (map (\<lambda>t. \<lparr>label = topic t, value' = relevance t\<rparr>) (topicStats d))
             = map relevance (topicStats d)"
    by (simp add: comp_def)
  have w: "map bar_width (TopThemes d)
     = map (\<lambda>t. of_int (relevance t) / of_int (Max (insert 1 (set (map relevance (topicStats d))))) * 100)
           (topicStats d)"
    unfolding t BarChart_width v by (simp add: comp_def)
  have m: "Max (insert 1 (set (map relevance (topicStats d)))) = Max (set (map relevance (topicStats d)))"
    if "topicStats d \<noteq> []" "1 \<le> Max (set (map relevance (topicStats d)))"
    using that by (simp add: max_def)
  have x: "map bar_text (TopThemes d) = map relevance (topicStats d)"
    by (simp add: t BarChart_def Let_def comp_def)
  have c: "map impact_text (ConceptImpact d) = map importance (take 5 (keyConcepts d))"
    "map impact_width (ConceptImpact d) = map importance (take 5 (keyConcepts d))"
    by (simp_all add: ConceptImpact_def tab_views_def comp_def)
  show ?thesis using w m x c by simp
qed

theorem analytics_bars_witness:
  "topicStats sample_result \<noteq> [] \<and>
   1 \<le> Max (set (map relevance (topicStats sample_result))) \<and>
   map bar_width (TopThemes sample_result) = [50, 100] \<and>
   map bar_text (TopThemes sample_result) = [40, 80] \<and>
   map impact_width (ConceptImpact sample_result) = [50]"
  using analytics_bars [of sample_result]
  by (simp add: sample_result_def)

text \<open>
  Claim C9 as stated fails for the concept panel: a single concept of importance 50 is the
  maximum of its series, so its share of the maximum is 100 per cent, but its bar is 50 per
  cent wide.
\<close>

theorem concept_bar_not_relative:
  "ConceptImpact sample_result
     = [\<lparr>impact_term = lit ''Entropy'', impact_width = 50, impact_text = 50\<rparr>] \<and>
   rat_of_int 50 / rat_of_int (Max (set (map importance (keyConcepts sample_result)))) * 100 = 100 \<and>
   rat_of_int (impact_width (hd (ConceptImpact sample_result)))
     \<noteq> rat_of_int (importance (hd (keyConcepts sample_result)))
         / rat_of_int (Max (set (map importance (keyConcepts sample_result)))) * 100"
  by (simp add: ConceptImpact_def tab_views_def sample_result_def)

text \<open>
  Claim C10. The concept panel of the analytics tab shows the first five key concepts, in
  their stored order, and no more; the concepts tab shows all of them.
\<close>

theorem concept_panel_first_five:
  "map impact_term (ConceptImpact d) = take 5 (map term' (keyConcepts d)) \<and>
   map impact_text (ConceptImpact d) = take 5 (map importance (keyConcepts d)) \<and>
   length (ConceptImpact d) = min 5 (length (keyConcepts d)) \<and>
   map card_term (CoreConcepts d) = map term' (keyConcepts d) \<and>
   map card_impact (CoreConcepts d) = map importance (keyConcepts d) \<and>
   length (CoreConcepts d) = length (keyConcepts d)"
  by (simp add: ConceptImpact_def CoreConcepts_def tab_views_def comp_def take_map
      ConceptCard_def case_prod_beta min.commute map_snd_enumerate_fun)


end
